theory Spec2Isabelle
  imports Complex_Main
begin

section \<open>MediGuide: the chat service over a retrieval chain\<close>

text \<open>
  A shallow embedding of \<^verbatim>\<open>main.py\<close> and \<^verbatim>\<open>database.py\<close>. Python
  exceptions are values of a sum type, the module-level global \<^verbatim>\<open>qa_chain\<close>, the
  MongoDB collections and the standard output are fields of one state record that every
  function takes and returns. Calls into third-party libraries (the OpenAI client, the
  sentence-transformer embedder, the FAISS store, the retrieval chain, BSON object ids,
  the wall clock) are fields of a record of externals: the theorems hold for every
  behaviour of those libraries unless a hypothesis says otherwise.
\<close>

subsection \<open>Exceptions\<close>

text \<open>A Python exception: its class name and the text \<^verbatim>\<open>str(e)\<close> gives.\<close>

datatype exn = Exn (exn_class: string) (exn_str: string)

text \<open>\<^verbatim>\<open>fastapi.HTTPException(status_code=..., detail=...)\<close>.\<close>

datatype http_exception = HTTPException (status_code: nat) (detail: string)

text \<open>
  What a route handler can end with besides a value: an \<^verbatim>\<open>HTTPException\<close> it
  raised, or any other exception it let escape.
\<close>

datatype failure = Http http_exception | Unhandled exn

subsection \<open>Library objects\<close>

text \<open>The keyword arguments of \<^verbatim>\<open>ChatOpenAI(...)\<close>; the object built holds them.\<close>

record chat_openai =
  model :: string
  openai_api_key :: string
  openai_api_base :: string
  temperature :: rat
  max_tokens :: nat

text \<open>An embedder object: the model it names and the dimension of the vectors it gives.\<close>

record hf_embeddings =
  model_name :: string
  embedding_dim :: nat

text \<open>A langchain \<^verbatim>\<open>Document\<close>: its text and the source it was cut from.\<close>

record document =
  page_content :: string
  doc_source :: string

text \<open>
  A FAISS vector store as loaded from disk: the dimension its index was built with, the
  embedder handed to \<^verbatim>\<open>load_local\<close>, and the stored documents.
\<close>

record faiss_store =
  index_dim :: nat
  embedding_function :: hf_embeddings
  docstore :: "document list"

text \<open>\<^verbatim>\<open>db.as_retriever(search_kwargs={'k': ...})\<close>.\<close>

record retriever =
  vectorstore :: faiss_store
  search_k :: nat

record prompt_template =
  template :: string
  input_variables :: "string list"

text \<open>The arguments of \<^verbatim>\<open>RetrievalQA.from_chain_type\<close>; the chain built holds them.\<close>

record retrieval_qa =
  llm :: chat_openai
  chain_type :: string
  chain_retriever :: retriever
  return_source_documents :: bool
  chain_prompt :: prompt_template

text \<open>
  The dictionary \<^verbatim>\<open>qa_chain.invoke\<close> returns when
  \<^verbatim>\<open>return_source_documents\<close> is set.
\<close>

record chain_output =
  query :: string
  result :: string
  source_documents :: "document list"

subsection \<open>Database documents\<close>

text \<open>A BSON object id, kept as the opaque text the library prints for it.\<close>

datatype objectid = Oid string

record message =
  role :: string
  content :: string
  timestamp :: nat

record conversation =
  doc_id :: objectid
  username :: string
  title :: string
  messages :: "message list"
  created_at :: nat

record user =
  user_name :: string
  hashed_password :: string
  user_created_at :: nat

text \<open>What \<^verbatim>\<open>serialize_doc\<close> makes of a conversation: \<^verbatim>\<open>_id\<close> replaced by its text.\<close>

record serialized_conversation =
  ser_id :: string
  ser_username :: string
  ser_title :: string
  ser_messages :: "message list"
  ser_created_at :: nat

subsection \<open>Requests and responses\<close>

record chat_request =
  prompt :: string
  conversation_id :: "string option"

text \<open>The dictionary \<^verbatim>\<open>chat_endpoint\<close> returns: exactly these two keys.\<close>

record chat_response =
  response :: string
  response_conversation_id :: string

subsection \<open>The libraries and the environment\<close>

text \<open>
  A constructor of a library either raises or returns the object holding its arguments:
  \<open>ChatOpenAI_raises\<close> and \<open>from_chain_type_raises\<close> say which
  (\<open>None\<close>: it returns). \<open>utcnow_at n\<close> is the reading of the clock at its
  \<open>n\<close>-th call, \<open>ObjectId_new n\<close> the \<open>n\<close>-th identifier the driver generates.
\<close>

record externals =
  getenv :: "string \<Rightarrow> string option"
  ChatOpenAI_raises :: "chat_openai \<Rightarrow> exn option"
  HuggingFaceEmbeddings :: "string \<Rightarrow> exn + hf_embeddings"
  FAISS_load_local :: "string \<Rightarrow> hf_embeddings \<Rightarrow> bool \<Rightarrow> exn + faiss_store"
  from_chain_type_raises :: "retrieval_qa \<Rightarrow> exn option"
  invoke :: "retrieval_qa \<Rightarrow> string \<Rightarrow> exn + chain_output"
  ObjectId :: "string \<Rightarrow> exn + objectid"
  str_ObjectId :: "objectid \<Rightarrow> string"
  ObjectId_new :: "nat \<Rightarrow> objectid"
  utcnow_at :: "nat \<Rightarrow> nat"
  verify_token :: "string \<Rightarrow> string option"

subsection \<open>The state of the process\<close>

text \<open>
  \<open>chain_calls\<close> is not in the source: it records, in order, every call of
  \<^verbatim>\<open>qa_chain.invoke\<close> (the chain and the query), so that the number of model calls
  of a request can be stated.
\<close>

record world =
  qa_chain :: "retrieval_qa option"
  conversations_collection :: "conversation list"
  users_collection :: "user list"
  stdout :: "string list"
  chain_calls :: "(retrieval_qa \<times> string) list"
  clock_reads :: nat
  oids_generated :: nat

definition print :: "string \<Rightarrow> world \<Rightarrow> world" where
  "print line s = s\<lparr>stdout := stdout s @ [line]\<rparr>"

definition utcnow :: "externals \<Rightarrow> world \<Rightarrow> nat \<times> world" where
  "utcnow ext s = (utcnow_at ext (clock_reads s), s\<lparr>clock_reads := Suc (clock_reads s)\<rparr>)"

subsection \<open>\<^verbatim>\<open>load_llm\<close>\<close>

definition groq_llm :: "string \<Rightarrow> chat_openai" where
  "groq_llm key =
     \<lparr>model = ''llama-3.1-8b-instant'',
      openai_api_key = key,
      openai_api_base = ''https://api.groq.com/openai/v1'',
      temperature = 7 / 10,
      max_tokens = 512\<rparr>"

text \<open>
  The \<^verbatim>\<open>for key in [...]\<close> loop: a key that is \<^verbatim>\<open>None\<close> or empty is skipped, a
  constructor that raises is printed and the next key is tried, and falling out of the
  loop raises \<^verbatim>\<open>ValueError\<close>.
\<close>

fun load_llm_loop :: "externals \<Rightarrow> string option list \<Rightarrow> world \<Rightarrow> (exn + chat_openai) \<times> world" where
  "load_llm_loop ext [] s =
     (Inl (Exn ''ValueError'' ''Both GROQ API keys failed or are missing. Cannot load LLM.''), s)"
| "load_llm_loop ext (None # keys) s = load_llm_loop ext keys s"
| "load_llm_loop ext (Some key # keys) s =
     (if key = [] then load_llm_loop ext keys s
      else (case ChatOpenAI_raises ext (groq_llm key) of
              None \<Rightarrow> (Inr (groq_llm key), s)
            | Some e \<Rightarrow> load_llm_loop ext keys (print (''GROQ API key failed: '' @ exn_str e) s)))"

definition load_llm :: "externals \<Rightarrow> world \<Rightarrow> (exn + chat_openai) \<times> world" where
  "load_llm ext s =
     load_llm_loop ext [getenv ext ''PRIMARY_GROQ_API_KEY'', getenv ext ''FALLBACK_GROQ_API_KEY''] s"



subsection \<open>The prompt template\<close>

definition dquote :: string where
  "dquote = [CHR 0x22]"

definition apostrophe :: string where
  "apostrophe = [CHR 0x27]"

text \<open>U+2014 in UTF-8.\<close>

definition em_dash :: string where
  "em_dash = [CHR 0xE2, CHR 0x80, CHR 0x94]"

text \<open>The lines of the triple-quoted \<^verbatim>\<open>raw_prompt\<close>, split at its line breaks.\<close>

definition raw_prompt_lines :: "string list" where
  "raw_prompt_lines =
    [
     '''',
     ''            You are a compassionate, knowledgeable, and trustworthy medical assistant, like a kind doctor speaking directly to the patient.'',
     ''            Your role is to give **accurate**, **polite**, and **helpful** medical answers based on the provided context, and to communicate in a way the patient feels understood and cared for.'',
     '''',
     ''            '' @ em_dash @ '' Always respond in a warm, polite, and respectful tone, similar to how a doctor calmly explains to a patient.'',
     ''            - Your task is to provide **accurate**, **concise**, and **fact-based** answers based solely on the information provided in the context.'',
     ''            '' @ em_dash @ '' If the patient'' @ apostrophe @ ''s question is in Hindi, respond entirely in Hindi.'',
     ''            '' @ em_dash @ '' If it'' @ apostrophe @ ''s in English, respond in English.'',
     ''            '' @ em_dash @ '' If the question is mixed (Hinglish), respond in **natural Hinglish** '' @ em_dash @ '' use a friendly, simple mix of Hindi and English, like how people speak in daily conversation (e.g., '' @ dquote @ ''aapko rest lena chahiye and you should consult a doctor immediately'' @ dquote @ '', etc.).'',
     ''            '' @ em_dash @ '' Always answer every question to the best of your ability, using only the given context only.'',
     ''            '' @ em_dash @ '' Avoid robotic or overly formal tone '' @ em_dash @ '' sound like a real, kind doctor.'',
     ''            '' @ em_dash @ '' Always try to help. If the context lacks full information, respond gently and share basic, widely accepted medical guidance.'',
     ''            '' @ em_dash @ '' Do NOT generate facts beyond the provided context unless they are basic, well-established medical facts.'',
     ''            '' @ em_dash @ '' Never hallucinate or speculate.'',
     ''            '' @ em_dash @ '' **Format your answers in short, clear, point-wise or numbered format**, so the patient can easily follow.'',
     ''            '' @ em_dash @ '' If sources are mentioned in the context, refer to them briefly and respectfully.'',
     '''',
     ''            ---'',
     '''',
     ''            Context:'',
     ''            {context}'',
     '''',
     ''            Question:'',
     ''            {question}'',
     '''',
     ''            ---'',
     '''',
     ''            Final Answer:'',
     ''        ''
    ]"

fun join_lines :: "string list \<Rightarrow> string" where
  "join_lines [] = []"
| "join_lines [l] = l"
| "join_lines (l # ls) = l @ [CHR 0x0A] @ join_lines ls"

definition raw_prompt :: string where
  "raw_prompt = join_lines raw_prompt_lines"

subsection \<open>\<^verbatim>\<open>load_resources\<close>\<close>

text \<open>U+2705 and U+274C in UTF-8, the marks the two startup messages begin with.\<close>

definition check_mark :: string where
  "check_mark = [CHR 0xE2, CHR 0x9C, CHR 0x85]"

definition cross_mark :: string where
  "cross_mark = [CHR 0xE2, CHR 0x9D, CHR 0x8C]"

definition rag_chain :: "chat_openai \<Rightarrow> faiss_store \<Rightarrow> retrieval_qa" where
  "rag_chain l db =
     \<lparr>llm = l,
      chain_type = ''stuff'',
      chain_retriever = \<lparr>vectorstore = db, search_k = 3\<rparr>,
      return_source_documents = True,
      chain_prompt = \<lparr>template = raw_prompt, input_variables = [''context'', ''question'']\<rparr>\<rparr>"

text \<open>
  The body of the \<^verbatim>\<open>try\<close>: the exception that leaves it, if any, and the state
  at that point (what \<^verbatim>\<open>load_llm\<close> printed stays printed).
\<close>

definition load_resources_try :: "externals \<Rightarrow> world \<Rightarrow> exn option \<times> world" where
  "load_resources_try ext s =
     (case load_llm ext s of
        (Inl e, s1) \<Rightarrow> (Some e, s1)
      | (Inr l, s1) \<Rightarrow>
          (case HuggingFaceEmbeddings ext ''sentence-transformers/all-MiniLM-L6-v2'' of
             Inl e \<Rightarrow> (Some e, s1)
           | Inr embed_model \<Rightarrow>
               (case FAISS_load_local ext ''vectorstore/db_faiss'' embed_model True of
                  Inl e \<Rightarrow> (Some e, s1)
                | Inr db \<Rightarrow>
                    (case from_chain_type_raises ext (rag_chain l db) of
                       Some e \<Rightarrow> (Some e, s1)
                     | None \<Rightarrow>
                         (None,
                          print (check_mark @
                                 '' RAG chain with compassionate doctor prompt loaded successfully!'')
                            (s1\<lparr>qa_chain := Some (rag_chain l db)\<rparr>))))))"

text \<open>The startup hook: \<^verbatim>\<open>except Exception\<close> prints the failure and returns.\<close>

definition load_resources :: "externals \<Rightarrow> world \<Rightarrow> world" where
  "load_resources ext s =
     (case load_resources_try ext s of
        (None, s') \<Rightarrow> s'
      | (Some e, s') \<Rightarrow> print (cross_mark @ '' Failed to load RAG chain: '' @ exn_str e) s')"

subsection \<open>\<^verbatim>\<open>database.py\<close>\<close>

text \<open>
  A collection is the list of its documents in insertion order: \<^verbatim>\<open>find_one\<close>
  returns the first document that matches the filter, \<^verbatim>\<open>update_one\<close> changes the
  first one, \<^verbatim>\<open>insert_one\<close> adds at the end.
\<close>

fun serialize_doc :: "externals \<Rightarrow> conversation option \<Rightarrow> serialized_conversation option" where
  "serialize_doc ext None = None"
| "serialize_doc ext (Some doc) =
     Some \<lparr>ser_id = str_ObjectId ext (doc_id doc),
           ser_username = username doc,
           ser_title = title doc,
           ser_messages = messages doc,
           ser_created_at = created_at doc\<rparr>"

definition get_user :: "world \<Rightarrow> string \<Rightarrow> user option" where
  "get_user s name = List.find (\<lambda>u. user_name u = name) (users_collection s)"

definition get_conversation_by_id ::
  "externals \<Rightarrow> world \<Rightarrow> string \<Rightarrow> string \<Rightarrow> exn + serialized_conversation option" where
  "get_conversation_by_id ext s cid name =
     (case ObjectId ext cid of
        Inl e \<Rightarrow> Inl e
      | Inr oid \<Rightarrow>
          Inr (serialize_doc ext
                 (List.find (\<lambda>c. doc_id c = oid \<and> username c = name) (conversations_collection s))))"

definition create_conversation ::
  "externals \<Rightarrow> world \<Rightarrow> string \<Rightarrow> message \<Rightarrow> objectid \<times> world" where
  "create_conversation ext s name first_message =
     (case utcnow ext s of
        (now, s1) \<Rightarrow>
          (let inserted_id = ObjectId_new ext (oids_generated s1);
               doc = \<lparr>doc_id = inserted_id,
                      username = name,
                      title = take 50 (content first_message) @ ''...'',
                      messages = [first_message],
                      created_at = now\<rparr>
           in (inserted_id,
               s1\<lparr>conversations_collection := conversations_collection s1 @ [doc],
                  oids_generated := Suc (oids_generated s1)\<rparr>)))"

text \<open>\<^verbatim>\<open>update_one({"_id": oid}, {"$push": {"messages": m}})\<close>.\<close>

fun push_message :: "objectid \<Rightarrow> message \<Rightarrow> conversation list \<Rightarrow> conversation list" where
  "push_message oid m [] = []"
| "push_message oid m (c # cs) =
     (if doc_id c = oid then c\<lparr>messages := messages c @ [m]\<rparr> # cs
      else c # push_message oid m cs)"

definition add_message_to_conversation ::
  "externals \<Rightarrow> world \<Rightarrow> string \<Rightarrow> message \<Rightarrow> exn + world" where
  "add_message_to_conversation ext s cid m =
     (case ObjectId ext cid of
        Inl e \<Rightarrow> Inl e
      | Inr oid \<Rightarrow>
          Inr (s\<lparr>conversations_collection := push_message oid m (conversations_collection s)\<rparr>))"

subsection \<open>The route handlers of \<^verbatim>\<open>main.py\<close>\<close>

definition get_current_user :: "externals \<Rightarrow> world \<Rightarrow> string \<Rightarrow> failure + user" where
  "get_current_user ext s token =
     (case verify_token ext token of
        None \<Rightarrow> Inl (Http (HTTPException 401 ''Invalid token''))
      | Some name \<Rightarrow>
          (if name = [] then Inl (Http (HTTPException 401 ''Invalid token''))
           else (case get_user s name of
                   None \<Rightarrow> Inl (Http (HTTPException 404 ''User not found''))
                 | Some u \<Rightarrow> Inr u)))"

text \<open>
  \<^verbatim>\<open>GET /conversations/{conversation_id}\<close>: the value is the list under the key
  \<^verbatim>\<open>messages\<close> of the dictionary returned. An exception of \<^verbatim>\<open>ObjectId\<close> is not
  caught here.
\<close>

definition get_messages :: "externals \<Rightarrow> world \<Rightarrow> string \<Rightarrow> user \<Rightarrow> failure + message list" where
  "get_messages ext s cid current_user =
     (case get_conversation_by_id ext s cid (user_name current_user) of
        Inl e \<Rightarrow> Inl (Unhandled e)
      | Inr None \<Rightarrow> Inl (Http (HTTPException 404 ''Conversation not found''))
      | Inr (Some conversation) \<Rightarrow> Inr (ser_messages conversation))"

definition internal_error :: "exn \<Rightarrow> failure" where
  "internal_error e = Http (HTTPException 500 (exn_str e))"

text \<open>
  The branch \<^verbatim>\<open>if convo_id:\<close> of the chat handler: both messages are pushed to the
  conversation the request names. The value is the identifier to return.
\<close>

definition chat_existing ::
  "externals \<Rightarrow> world \<Rightarrow> string \<Rightarrow> message \<Rightarrow> message \<Rightarrow> (exn + string) \<times> world" where
  "chat_existing ext s convo_id user_message assistant_message =
     (case add_message_to_conversation ext s convo_id user_message of
        Inl e \<Rightarrow> (Inl e, s)
      | Inr s1 \<Rightarrow>
          (case add_message_to_conversation ext s1 convo_id assistant_message of
             Inl e \<Rightarrow> (Inl e, s1)
           | Inr s2 \<Rightarrow> (Inr convo_id, s2)))"

text \<open>
  Its \<^verbatim>\<open>else\<close> branch: a conversation is created from the user message, and the
  assistant message is pushed to it through the text of the new identifier.
\<close>

definition chat_new ::
  "externals \<Rightarrow> world \<Rightarrow> string \<Rightarrow> message \<Rightarrow> message \<Rightarrow> (exn + string) \<times> world" where
  "chat_new ext s name user_message assistant_message =
     (case create_conversation ext s name user_message of
        (new_convo_id, s1) \<Rightarrow>
          (case add_message_to_conversation ext s1 (str_ObjectId ext new_convo_id)
                  assistant_message of
             Inl e \<Rightarrow> (Inl e, s1)
           | Inr s2 \<Rightarrow> (Inr (str_ObjectId ext new_convo_id), s2)))"

text \<open>
  \<^verbatim>\<open>POST /chat\<close>. The test of \<^verbatim>\<open>qa_chain\<close> stands before the \<^verbatim>\<open>try\<close>;
  every exception raised inside it becomes a 500 whose detail is the exception's text.
  The state returned is the state at the point the handler ends, also when it fails.
  A conversation id that is \<^verbatim>\<open>None\<close> or the empty string is falsy.
\<close>

definition chat_endpoint ::
  "externals \<Rightarrow> world \<Rightarrow> chat_request \<Rightarrow> user \<Rightarrow> (failure + chat_response) \<times> world" where
  "chat_endpoint ext s request current_user =
     (case qa_chain s of
        None \<Rightarrow> (Inl (Http (HTTPException 503 ''AI service is not available'')), s)
      | Some chain \<Rightarrow>
          (let s1 = s\<lparr>chain_calls := chain_calls s @ [(chain, prompt request)]\<rparr> in
           case invoke ext chain (prompt request) of
             Inl e \<Rightarrow> (Inl (internal_error e), s1)
           | Inr out \<Rightarrow>
               (let ai_response = result out;
                    name = user_name current_user
                in case utcnow ext s1 of
                  (t_user, s2) \<Rightarrow>
                    (case utcnow ext s2 of
                       (t_assistant, s3) \<Rightarrow>
                         (let user_message =
                                \<lparr>role = ''user'', content = prompt request, timestamp = t_user\<rparr>;
                              assistant_message =
                                \<lparr>role = ''assistant'', content = ai_response,
                                 timestamp = t_assistant\<rparr>
                          in case (case conversation_id request of
                                     None \<Rightarrow> chat_new ext s3 name user_message assistant_message
                                   | Some convo_id \<Rightarrow>
                                       if convo_id = []
                                       then chat_new ext s3 name user_message assistant_message
                                       else chat_existing ext s3 convo_id user_message
                                              assistant_message) of
                               (Inl e, s4) \<Rightarrow> (Inl (internal_error e), s4)
                             | (Inr convo_id, s4) \<Rightarrow>
                                 (Inr \<lparr>response = ai_response,
                                       response_conversation_id = convo_id\<rparr>, s4))))))"

text \<open>A run of chat requests, one after the other, each on the state the last one left.\<close>

fun chat_requests ::
  "externals \<Rightarrow> world \<Rightarrow> (chat_request \<times> user) list \<Rightarrow> (failure + chat_response) list \<times> world" where
  "chat_requests ext s [] = ([], s)"
| "chat_requests ext s ((request, current_user) # rest) =
     (case chat_endpoint ext s request current_user of
        (r, s') \<Rightarrow> (case chat_requests ext s' rest of (rs, s'') \<Rightarrow> (r # rs, s'')))"

text \<open>
  The libraries with the source documents struck from every answer of the chain: what
  a caller can tell apart between \<open>ext\<close> and \<open>without_sources ext\<close> is what
  depends on the provenance of the retrieved chunks.
\<close>

definition without_sources :: "externals \<Rightarrow> externals" where
  "without_sources ext =
     ext\<lparr>invoke := (\<lambda>chain q. map_sum id (\<lambda>out. out\<lparr>source_documents := []\<rparr>) (invoke ext chain q))\<rparr>"

subsection \<open>A concrete deployment\<close>

text \<open>
  Libraries and data to run the definitions on: only the primary key is set and the
  constructor accepts it, the embedder gives vectors of dimension 768, the loader returns
  a store of dimension 384 without comparing anything, the chain answers every query
  with one sentence and the first \<open>k\<close> stored documents, an object id is any text of
  24 characters. The database holds one conversation, owned by bob.
\<close>

definition demo_store :: "hf_embeddings \<Rightarrow> faiss_store" where
  "demo_store emb =
     \<lparr>index_dim = 384,
      embedding_function = emb,
      docstore = [\<lparr>page_content = ''Aspirin reduces fever.'', doc_source = ''data/drugs.pdf''\<rparr>]\<rparr>"

definition demo_ext :: externals where
  "demo_ext =
     \<lparr>getenv = (\<lambda>k. if k = ''PRIMARY_GROQ_API_KEY'' then Some ''gsk-primary'' else None),
      ChatOpenAI_raises = (\<lambda>_. None),
      HuggingFaceEmbeddings = (\<lambda>n. Inr \<lparr>model_name = n, embedding_dim = 768\<rparr>),
      FAISS_load_local = (\<lambda>path emb allow. Inr (demo_store emb)),
      from_chain_type_raises = (\<lambda>_. None),
      invoke = (\<lambda>chain q.
        Inr \<lparr>query = q,
             result = ''Please rest and drink water.'',
             source_documents =
               take (search_k (chain_retriever chain))
                 (docstore (vectorstore (chain_retriever chain)))\<rparr>),
      ObjectId = (\<lambda>t. if length t = 24 then Inr (Oid t)
                       else Inl (Exn ''InvalidId'' (t @ '' is not a valid ObjectId''))),
      str_ObjectId = (\<lambda>oid. case oid of Oid t \<Rightarrow> t),
      ObjectId_new = (\<lambda>n. Oid (''65f0c0ffee0000000000000'' @ [if n = 0 then CHR ''1'' else CHR ''2''])),
      utcnow_at = (\<lambda>n. 1700000000 + n),
      verify_token = (\<lambda>t. if t = ''token-of-alice'' then Some ''alice'' else None)\<rparr>"


text \<open>The same libraries, except that neither key is accepted.\<close>

definition no_key_ext :: externals where
  "no_key_ext = demo_ext\<lparr>ChatOpenAI_raises := (\<lambda>_. Some (Exn ''AuthenticationError'' ''invalid api key''))\<rparr>"

definition alice :: user where
  "alice = \<lparr>user_name = ''alice'', hashed_password = ''$2b$12$alice'', user_created_at = 1600000000\<rparr>"

definition bob :: user where
  "bob = \<lparr>user_name = ''bob'', hashed_password = ''$2b$12$bob'', user_created_at = 1600000001\<rparr>"

definition bob_conversation :: conversation where
  "bob_conversation =
     \<lparr>doc_id = Oid ''65f0c0ffee00000000000b0b'',
      username = ''bob'',
      title = ''What is a safe dose of ibuprofen?...'',
      messages = [\<lparr>role = ''user'', content = ''What is a safe dose of ibuprofen?'',
                   timestamp = 1650000000\<rparr>],
      created_at = 1650000000\<rparr>"

text \<open>The process as the module is imported: \<^verbatim>\<open>qa_chain = None\<close>, nothing printed.\<close>

definition demo_world :: world where
  "demo_world =
     \<lparr>qa_chain = None,
      conversations_collection = [bob_conversation],
      users_collection = [alice, bob],
      stdout = [],
      chain_calls = [],
      clock_reads = 0,
      oids_generated = 0\<rparr>"

text \<open>The chain the startup hook builds in the concrete deployment.\<close>

definition demo_chain :: retrieval_qa where
  "demo_chain =
     rag_chain (groq_llm ''gsk-primary'')
       (demo_store \<lparr>model_name = ''sentence-transformers/all-MiniLM-L6-v2'', embedding_dim = 768\<rparr>)"

section \<open>Properties\<close>

subsection \<open>Credential fallback\<close>



subsection \<open>What a request leaves unchanged\<close>





lemma chat_endpoint_unavailable:
  "qa_chain s = None \<Longrightarrow>
     chat_endpoint ext s request u = (Inl (Http (HTTPException 503 ''AI service is not available'')), s)"
  by (simp add: chat_endpoint_def)



lemma print_frame:
  "qa_chain (print line s) = qa_chain s" "chain_calls (print line s) = chain_calls s"
  "stdout (print line s) = stdout s @ [line]"
  by (simp_all add: print_def)

lemma load_llm_loop_frame:
  "qa_chain (snd (load_llm_loop ext keys s)) = qa_chain s \<and>
   chain_calls (snd (load_llm_loop ext keys s)) = chain_calls s"
  by (induction ext keys s rule: load_llm_loop.induct)
     (auto simp: print_frame split: option.splits)

lemma load_llm_frame:
  "load_llm ext s = (r, s1) \<Longrightarrow> qa_chain s1 = qa_chain s \<and> chain_calls s1 = chain_calls s"
  using load_llm_loop_frame
    [of ext "[getenv ext ''PRIMARY_GROQ_API_KEY'', getenv ext ''FALLBACK_GROQ_API_KEY'']" s]
  by (simp add: load_llm_def)

lemma load_resources_try_failed:
  "fst (load_resources_try ext s) = Some e \<Longrightarrow>
     qa_chain (snd (load_resources_try ext s)) = qa_chain s"
  by (auto simp: load_resources_try_def split: prod.splits sum.splits option.splits
           dest: load_llm_frame)



lemma load_resources_failed:
  "fst (load_resources_try ext s) = Some e \<Longrightarrow>
     load_resources ext s =
       print (cross_mark @ '' Failed to load RAG chain: '' @ exn_str e)
         (snd (load_resources_try ext s))"
  by (auto simp: load_resources_def split: prod.splits)

lemma chat_requests_unavailable:
  "qa_chain s = None \<Longrightarrow>
     chat_requests ext s reqs =
       (replicate (length reqs) (Inl (Http (HTTPException 503 ''AI service is not available''))), s)"
  by (induction reqs) (auto simp: chat_endpoint_unavailable)

text \<open>
  Claim C6. When the startup hook fails to load the model, the embedder, the index or the
  chain, it does not raise: it prints the failure and returns with \<^verbatim>\<open>qa_chain\<close>
  still unset. From then on every chat request is answered with status 503 and the detail
  ``AI service is not available'', whatever the request, and leaves the state as it was.
\<close>

theorem startup_failure_gives_503:
  assumes fails: "fst (load_resources_try ext s) = Some e"
    and unset: "qa_chain s = None"
  shows "qa_chain (load_resources ext s) = None \<and>
         last (stdout (load_resources ext s)) =
           cross_mark @ '' Failed to load RAG chain: '' @ exn_str e \<and>
         chat_requests ext (load_resources ext s) reqs =
           (replicate (length reqs) (Inl (Http (HTTPException 503 ''AI service is not available''))),
            load_resources ext s)"
proof -
  have none: "qa_chain (load_resources ext s) = None"
    using fails unset by (simp add: load_resources_failed print_frame load_resources_try_failed)
  moreover have "last (stdout (load_resources ext s)) =
      cross_mark @ '' Failed to load RAG chain: '' @ exn_str e"
    using fails by (simp add: load_resources_failed print_frame)
  moreover note chat_requests_unavailable [OF none, of ext reqs]
  ultimately show ?thesis by simp
qed

lemma no_key_try:
  "load_resources_try no_key_ext demo_world =
     (Some (Exn ''ValueError'' ''Both GROQ API keys failed or are missing. Cannot load LLM.''),
      demo_world\<lparr>stdout := [''GROQ API key failed: invalid api key'']\<rparr>)"
  by (simp add: load_resources_try_def load_llm_def no_key_ext_def demo_ext_def demo_world_def
        print_def)

theorem startup_failure_gives_503_witness:
  "fst (load_resources_try no_key_ext demo_world) =
     Some (Exn ''ValueError'' ''Both GROQ API keys failed or are missing. Cannot load LLM.'') \<and>
   qa_chain demo_world = None \<and>
   qa_chain (load_resources no_key_ext demo_world) = None \<and>
   fst (chat_requests no_key_ext (load_resources no_key_ext demo_world)
          [(\<lparr>prompt = ''What reduces fever?'', conversation_id = None\<rparr>, alice),
           (\<lparr>prompt = ''And a headache?'', conversation_id = None\<rparr>, bob)]) =
     [Inl (Http (HTTPException 503 ''AI service is not available'')),
      Inl (Http (HTTPException 503 ''AI service is not available''))]"
proof -
  have fails: "fst (load_resources_try no_key_ext demo_world) =
      Some (Exn ''ValueError'' ''Both GROQ API keys failed or are missing. Cannot load LLM.'')"
    by (simp add: no_key_try)
  have unset: "qa_chain demo_world = None"
    by (simp add: demo_world_def)
  show ?thesis
    using fails unset
      startup_failure_gives_503 [OF fails unset,
        of "[(\<lparr>prompt = ''What reduces fever?'', conversation_id = None\<rparr>, alice),
             (\<lparr>prompt = ''And a headache?'', conversation_id = None\<rparr>, bob)]"]
    by (simp add: numeral_2_eq_2)
qed

subsection \<open>The concrete deployment, evaluated\<close>

lemma demo_loaded:
  "load_resources demo_ext demo_world =
     demo_world\<lparr>qa_chain := Some demo_chain,
       stdout := [check_mark @ '' RAG chain with compassionate doctor prompt loaded successfully!'']\<rparr>"
  by (simp add: load_resources_def load_resources_try_def load_llm_def demo_ext_def demo_chain_def
        demo_world_def print_def)

lemmas demo_defs =
  chat_endpoint_def chat_new_def chat_existing_def create_conversation_def
  add_message_to_conversation_def utcnow_def internal_error_def
  demo_ext_def demo_world_def demo_chain_def rag_chain_def demo_store_def alice_def bob_def
  bob_conversation_def Let_def

subsection \<open>Empty queries\<close>




subsection \<open>The retriever of every model call\<close>






subsection \<open>What the caller gets back\<close>

lemma without_sources_fields:
  "utcnow (without_sources ext) = utcnow ext"
  "create_conversation (without_sources ext) = create_conversation ext"
  "add_message_to_conversation (without_sources ext) = add_message_to_conversation ext"
  "str_ObjectId (without_sources ext) = str_ObjectId ext"
  by (auto simp: without_sources_def utcnow_def create_conversation_def
        add_message_to_conversation_def fun_eq_iff)

lemma without_sources_branches:
  "chat_new (without_sources ext) = chat_new ext"
  "chat_existing (without_sources ext) = chat_existing ext"
  by (auto simp: chat_new_def chat_existing_def without_sources_fields fun_eq_iff
           split: sum.splits prod.splits)

lemma chat_endpoint_without_sources:
  "chat_endpoint (without_sources ext) s request u = chat_endpoint ext s request u"
proof (cases "qa_chain s")
  case None
  then show ?thesis by (simp add: chat_endpoint_unavailable)
next
  case (Some chain)
  show ?thesis
  proof (cases "invoke ext chain (prompt request)")
    case (Inl e)
    then have "invoke (without_sources ext) chain (prompt request) = Inl e"
      by (simp add: without_sources_def)
    with Inl Some show ?thesis by (simp add: chat_endpoint_def)
  next
    case (Inr out)
    then have "invoke (without_sources ext) chain (prompt request) =
        Inr (out\<lparr>source_documents := []\<rparr>)"
      by (simp add: without_sources_def)
    with Inr Some show ?thesis
      by (simp add: chat_endpoint_def without_sources_fields without_sources_branches Let_def
            split: prod.splits option.splits)
  qed
qed

lemma chat_endpoint_response:
  assumes "qa_chain s = Some chain" and "invoke ext chain (prompt request) = Inr out"
    and "fst (chat_endpoint ext s request u) = Inr resp"
  shows "response resp = result out"
  using assms
  by (auto simp: chat_endpoint_def utcnow_def Let_def split: option.splits prod.splits sum.splits
        if_splits)

text \<open>
  Claim C3, as the code has it. The value of a successful chat request is the generated
  text (the \<^verbatim>\<open>result\<close> of the chain) and the conversation id, and nothing else:
  striking the source documents from every answer of the chain changes neither the
  value returned nor the state left behind.
\<close>

theorem chat_response_has_no_sources:
  "chat_endpoint (without_sources ext) s request u = chat_endpoint ext s request u \<and>
   (qa_chain s = Some chain \<longrightarrow> invoke ext chain (prompt request) = Inr out \<longrightarrow>
    fst (chat_endpoint ext s request u) = Inr resp \<longrightarrow> response resp = result out)"
  using chat_endpoint_without_sources chat_endpoint_response by blast

lemma demo_invoke:
  "invoke demo_ext demo_chain q =
     Inr \<lparr>query = q, result = ''Please rest and drink water.'',
          source_documents =
            [\<lparr>page_content = ''Aspirin reduces fever.'', doc_source = ''data/drugs.pdf''\<rparr>]\<rparr>"
  by (simp add: demo_ext_def demo_chain_def rag_chain_def demo_store_def)

lemma demo_chat:
  "fst (chat_endpoint demo_ext (load_resources demo_ext demo_world)
          \<lparr>prompt = ''What reduces fever?'', conversation_id = None\<rparr> alice) =
     Inr \<lparr>response = ''Please rest and drink water.'',
          response_conversation_id = ''65f0c0ffee00000000000001''\<rparr>"
  by (simp add: demo_loaded) (simp add: demo_defs)

text \<open>
  Claim C3 says that the answer returned carries the provenance of the retrieved
  chunks. In the concrete deployment the chain returns one source document; with the
  sources struck it returns none; the caller gets the same response in both cases.
\<close>

theorem sources_do_not_reach_the_caller:
  "map_sum id source_documents (invoke demo_ext demo_chain ''What reduces fever?'') =
     Inr [\<lparr>page_content = ''Aspirin reduces fever.'', doc_source = ''data/drugs.pdf''\<rparr>] \<and>
   map_sum id source_documents (invoke (without_sources demo_ext) demo_chain ''What reduces fever?'') =
     Inr [] \<and>
   fst (chat_endpoint demo_ext (load_resources demo_ext demo_world)
          \<lparr>prompt = ''What reduces fever?'', conversation_id = None\<rparr> alice) =
     Inr \<lparr>response = ''Please rest and drink water.'',
          response_conversation_id = ''65f0c0ffee00000000000001''\<rparr> \<and>
   fst (chat_endpoint (without_sources demo_ext) (load_resources demo_ext demo_world)
          \<lparr>prompt = ''What reduces fever?'', conversation_id = None\<rparr> alice) =
     Inr \<lparr>response = ''Please rest and drink water.'',
          response_conversation_id = ''65f0c0ffee00000000000001''\<rparr>"
  by (simp add: chat_endpoint_without_sources demo_chat demo_invoke)
     (simp add: without_sources_def demo_invoke)

text \<open>The same request, as an instance of the general statement.\<close>

theorem chat_response_has_no_sources_witness:
  "qa_chain (load_resources demo_ext demo_world) = Some demo_chain \<and>
   invoke demo_ext demo_chain ''What reduces fever?'' =
     Inr \<lparr>query = ''What reduces fever?'', result = ''Please rest and drink water.'',
          source_documents =
            [\<lparr>page_content = ''Aspirin reduces fever.'', doc_source = ''data/drugs.pdf''\<rparr>]\<rparr> \<and>
   fst (chat_endpoint demo_ext (load_resources demo_ext demo_world)
          \<lparr>prompt = ''What reduces fever?'', conversation_id = None\<rparr> alice) =
     Inr \<lparr>response = ''Please rest and drink water.'',
          response_conversation_id = ''65f0c0ffee00000000000001''\<rparr> \<and>
   response \<lparr>response = ''Please rest and drink water.'',
             response_conversation_id = ''65f0c0ffee00000000000001''\<rparr> =
     result \<lparr>query = ''What reduces fever?'', result = ''Please rest and drink water.'',
          source_documents =
            [\<lparr>page_content = ''Aspirin reduces fever.'', doc_source = ''data/drugs.pdf''\<rparr>]\<rparr> \<and>
   chat_endpoint (without_sources demo_ext) (load_resources demo_ext demo_world)
          \<lparr>prompt = ''What reduces fever?'', conversation_id = None\<rparr> alice =
     chat_endpoint demo_ext (load_resources demo_ext demo_world)
          \<lparr>prompt = ''What reduces fever?'', conversation_id = None\<rparr> alice"
proof -
  have loaded: "qa_chain (load_resources demo_ext demo_world) = Some demo_chain"
    by (simp add: demo_loaded)
  show ?thesis
    using loaded demo_chat demo_invoke [of "''What reduces fever?''"]
      chat_response_has_no_sources [of demo_ext "load_resources demo_ext demo_world"
        "\<lparr>prompt = ''What reduces fever?'', conversation_id = None\<rparr>" alice demo_chain
        "\<lparr>query = ''What reduces fever?'', result = ''Please rest and drink water.'',
          source_documents =
            [\<lparr>page_content = ''Aspirin reduces fever.'', doc_source = ''data/drugs.pdf''\<rparr>]\<rparr>"
        "\<lparr>response = ''Please rest and drink water.'',
          response_conversation_id = ''65f0c0ffee00000000000001''\<rparr>"]
    by simp
qed

subsection \<open>Loading the index\<close>







subsection \<open>Conversations\<close>

lemma push_message_split:
  "\<forall>d \<in> set pre. doc_id d \<noteq> oid \<Longrightarrow> doc_id c = oid \<Longrightarrow>
     push_message oid m (pre @ c # post) = pre @ c\<lparr>messages := messages c @ [m]\<rparr> # post"
  by (induction pre) auto

lemma find_owned:
  "List.find (\<lambda>c. doc_id c = oid \<and> username c = name) cs = Some c \<Longrightarrow>
     c \<in> set cs \<and> doc_id c = oid \<and> username c = name"
  by (induction cs) (auto split: if_splits)

lemma find_not_owned:
  "\<forall>c \<in> set cs. doc_id c = oid \<longrightarrow> username c \<noteq> name \<Longrightarrow>
     List.find (\<lambda>c. doc_id c = oid \<and> username c = name) cs = None"
  by (induction cs) auto

lemma get_conversation_by_id_owned:
  assumes "get_conversation_by_id ext s cid name = Inr (Some sc)"
  shows "\<exists>c \<in> set (conversations_collection s).
           ObjectId ext cid = Inr (doc_id c) \<and> username c = name \<and>
           serialize_doc ext (Some c) = Some sc"
proof -
  from assms obtain oid where oid: "ObjectId ext cid = Inr oid"
    and ser: "serialize_doc ext (List.find (\<lambda>c. doc_id c = oid \<and> username c = name)
                 (conversations_collection s)) = Some sc"
    by (auto simp: get_conversation_by_id_def split: sum.splits)
  from ser obtain c where
    found: "List.find (\<lambda>c. doc_id c = oid \<and> username c = name) (conversations_collection s) = Some c"
    by (cases "List.find (\<lambda>c. doc_id c = oid \<and> username c = name) (conversations_collection s)") auto
  with find_owned [OF found] oid ser show ?thesis by auto
qed

text \<open>
  Claim C8. The lookup filters on the identifier and on the user name together: a
  conversation it returns, and the messages the endpoint returns, are those of a stored
  conversation with that identifier and owned by the requesting user; when every stored
  conversation with the identifier belongs to someone else, the endpoint raises 404
  ``Conversation not found'' and returns no message.
\<close>

theorem conversation_lookup_checks_owner:
  "(get_conversation_by_id ext s cid name = Inr (Some sc) \<longrightarrow>
      (\<exists>c \<in> set (conversations_collection s).
         ObjectId ext cid = Inr (doc_id c) \<and> username c = name \<and>
         serialize_doc ext (Some c) = Some sc)) \<and>
   (get_messages ext s cid u = Inr msgs \<longrightarrow>
      (\<exists>c \<in> set (conversations_collection s).
         ObjectId ext cid = Inr (doc_id c) \<and> username c = user_name u \<and> messages c = msgs)) \<and>
   (ObjectId ext cid = Inr oid \<longrightarrow>
    (\<forall>c \<in> set (conversations_collection s). doc_id c = oid \<longrightarrow> username c \<noteq> user_name u) \<longrightarrow>
      get_messages ext s cid u = Inl (Http (HTTPException 404 ''Conversation not found'')))"
proof (intro conjI impI)
  assume "get_conversation_by_id ext s cid name = Inr (Some sc)"
  then show "\<exists>c \<in> set (conversations_collection s).
      ObjectId ext cid = Inr (doc_id c) \<and> username c = name \<and> serialize_doc ext (Some c) = Some sc"
    by (rule get_conversation_by_id_owned)
next
  assume "get_messages ext s cid u = Inr msgs"
  then obtain sc where got: "get_conversation_by_id ext s cid (user_name u) = Inr (Some sc)"
    and msgs: "ser_messages sc = msgs"
    by (auto simp: get_messages_def split: sum.splits option.splits)
  from get_conversation_by_id_owned [OF got] msgs
  show "\<exists>c \<in> set (conversations_collection s).
      ObjectId ext cid = Inr (doc_id c) \<and> username c = user_name u \<and> messages c = msgs"
    by auto
next
  assume "ObjectId ext cid = Inr oid"
    and "\<forall>c \<in> set (conversations_collection s). doc_id c = oid \<longrightarrow> username c \<noteq> user_name u"
  then show "get_messages ext s cid u = Inl (Http (HTTPException 404 ''Conversation not found''))"
    by (simp add: get_messages_def get_conversation_by_id_def find_not_owned)
qed

text \<open>Bob reads his conversation; alice, asking for the same identifier, gets 404.\<close>

theorem conversation_lookup_checks_owner_witness:
  "get_conversation_by_id demo_ext demo_world ''65f0c0ffee00000000000b0b'' ''bob'' =
     Inr (serialize_doc demo_ext (Some bob_conversation)) \<and>
   get_messages demo_ext demo_world ''65f0c0ffee00000000000b0b'' bob =
     Inr (messages bob_conversation) \<and>
   bob_conversation \<in> set (conversations_collection demo_world) \<and>
   ObjectId demo_ext ''65f0c0ffee00000000000b0b'' = Inr (doc_id bob_conversation) \<and>
   username bob_conversation = user_name bob \<and>
   (\<exists>c \<in> set (conversations_collection demo_world). doc_id c = Oid ''65f0c0ffee00000000000b0b'') \<and>
   get_messages demo_ext demo_world ''65f0c0ffee00000000000b0b'' alice =
     Inl (Http (HTTPException 404 ''Conversation not found''))"
proof -
  have found: "get_conversation_by_id demo_ext demo_world ''65f0c0ffee00000000000b0b'' ''bob'' =
      Inr (serialize_doc demo_ext (Some bob_conversation))"
    by (simp add: get_conversation_by_id_def demo_ext_def demo_world_def bob_conversation_def)
  have own: "get_messages demo_ext demo_world ''65f0c0ffee00000000000b0b'' bob =
      Inr (messages bob_conversation)"
    by (simp add: get_messages_def get_conversation_by_id_def demo_ext_def demo_world_def
          bob_conversation_def bob_def)
  have parsed: "ObjectId demo_ext ''65f0c0ffee00000000000b0b'' = Inr (Oid ''65f0c0ffee00000000000b0b'')"
    by (simp add: demo_ext_def)
  have others: "\<forall>c \<in> set (conversations_collection demo_world).
      doc_id c = Oid ''65f0c0ffee00000000000b0b'' \<longrightarrow> username c \<noteq> user_name alice"
    by (simp add: demo_world_def bob_conversation_def alice_def)
  have hidden: "get_messages demo_ext demo_world ''65f0c0ffee00000000000b0b'' alice =
      Inl (Http (HTTPException 404 ''Conversation not found''))"
    using parsed others
      conversation_lookup_checks_owner [of demo_ext demo_world "''65f0c0ffee00000000000b0b''"
        "''bob''" _ alice _ "Oid ''65f0c0ffee00000000000b0b''"]
    by blast
  have facts: "bob_conversation \<in> set (conversations_collection demo_world)"
    "ObjectId demo_ext ''65f0c0ffee00000000000b0b'' = Inr (doc_id bob_conversation)"
    "username bob_conversation = user_name bob"
    "\<exists>c \<in> set (conversations_collection demo_world). doc_id c = Oid ''65f0c0ffee00000000000b0b''"
    by (simp_all add: demo_world_def demo_ext_def bob_conversation_def bob_def)
  from found own facts hidden show ?thesis
    by (intro conjI)
qed



lemma chat_existing_appends:
  assumes parsed: "ObjectId ext cid = Inr oid"
    and here: "conversations_collection s = pre @ c # post"
    and first: "\<forall>d \<in> set pre. doc_id d \<noteq> oid"
    and same: "doc_id c = oid"
  shows "fst (chat_existing ext s cid um am) = Inr cid \<and>
         conversations_collection (snd (chat_existing ext s cid um am)) =
           pre @ c\<lparr>messages := messages c @ [um, am]\<rparr> # post"
proof -
  have one: "push_message oid um (pre @ c # post) = pre @ c\<lparr>messages := messages c @ [um]\<rparr> # post"
    using first same by (rule push_message_split)
  have two: "push_message oid am (pre @ c\<lparr>messages := messages c @ [um]\<rparr> # post) =
      pre @ c\<lparr>messages := messages c @ [um, am]\<rparr> # post"
    using push_message_split [OF first, of "c\<lparr>messages := messages c @ [um]\<rparr>" am post] same
    by simp
  show ?thesis
    using parsed here one two
    by (simp add: chat_existing_def add_message_to_conversation_def)
qed


text \<open>
  Claim C10. A chat request that names a stored conversation and that the chain answers
  appends exactly two messages to it, the user message and then the assistant message,
  and changes no other conversation. Nothing relates the owner of the conversation to
  the requesting user: the update filters on the identifier alone.
\<close>

theorem chat_with_id_appends_two_messages:
  assumes loaded: "qa_chain s = Some chain"
    and answered: "invoke ext chain (prompt request) = Inr out"
    and given: "conversation_id request = Some cid" and nonempty: "cid \<noteq> []"
    and parsed: "ObjectId ext cid = Inr oid"
    and here: "conversations_collection s = pre @ c # post"
    and first: "\<forall>d \<in> set pre. doc_id d \<noteq> oid"
    and same: "doc_id c = oid"
  shows "fst (chat_endpoint ext s request u) =
           Inr \<lparr>response = result out, response_conversation_id = cid\<rparr> \<and>
         conversations_collection (snd (chat_endpoint ext s request u)) =
           pre @ c\<lparr>messages := messages c @
                   [\<lparr>role = ''user'', content = prompt request,
                     timestamp = utcnow_at ext (clock_reads s)\<rparr>,
                    \<lparr>role = ''assistant'', content = result out,
                     timestamp = utcnow_at ext (Suc (clock_reads s))\<rparr>]\<rparr> # post"
proof -
  define s3 where "s3 = s\<lparr>chain_calls := chain_calls s @ [(chain, prompt request)],
    clock_reads := Suc (Suc (clock_reads s))\<rparr>"
  define um where "um = \<lparr>role = ''user'', content = prompt request,
    timestamp = utcnow_at ext (clock_reads s)\<rparr>"
  define am where "am = \<lparr>role = ''assistant'', content = result out,
    timestamp = utcnow_at ext (Suc (clock_reads s))\<rparr>"
  have step: "chat_endpoint ext s request u =
      (case chat_existing ext s3 cid um am of
         (Inl e, s4) \<Rightarrow> (Inl (internal_error e), s4)
       | (Inr convo_id, s4) \<Rightarrow>
           (Inr \<lparr>response = result out, response_conversation_id = convo_id\<rparr>, s4))"
    using loaded answered given nonempty
    by (simp add: chat_endpoint_def utcnow_def Let_def s3_def um_def am_def)
  have "conversations_collection s3 = pre @ c # post"
    using here by (simp add: s3_def)
  from chat_existing_appends [OF parsed this first same, of um am]
  have app: "fst (chat_existing ext s3 cid um am) = Inr cid"
      "conversations_collection (snd (chat_existing ext s3 cid um am)) =
        pre @ c\<lparr>messages := messages c @ [um, am]\<rparr> # post"
    by simp_all
  show ?thesis
    using app unfolding step
    by (cases "chat_existing ext s3 cid um am") (auto simp: um_def am_def)
qed

lemma demo_loaded_fields:
  "qa_chain (load_resources demo_ext demo_world) = Some demo_chain"
  "conversations_collection (load_resources demo_ext demo_world) = [bob_conversation]"
  "oids_generated (load_resources demo_ext demo_world) = 0"
  "clock_reads (load_resources demo_ext demo_world) = 0"
  by (simp_all add: demo_loaded) (simp_all add: demo_world_def)


text \<open>Alice names the conversation of bob: her turn is appended to it.\<close>

theorem chat_with_id_appends_two_messages_witness:
  "qa_chain (load_resources demo_ext demo_world) = Some demo_chain \<and>
   ObjectId demo_ext ''65f0c0ffee00000000000b0b'' = Inr (doc_id bob_conversation) \<and>
   conversations_collection (load_resources demo_ext demo_world) = [] @ bob_conversation # [] \<and>
   username bob_conversation \<noteq> user_name alice \<and>
   fst (chat_endpoint demo_ext (load_resources demo_ext demo_world)
     \<lparr>prompt = ''And for a child?'', conversation_id = Some ''65f0c0ffee00000000000b0b''\<rparr> alice) =
     Inr \<lparr>response = ''Please rest and drink water.'',
          response_conversation_id = ''65f0c0ffee00000000000b0b''\<rparr> \<and>
   conversations_collection (snd (chat_endpoint demo_ext (load_resources demo_ext demo_world)
     \<lparr>prompt = ''And for a child?'', conversation_id = Some ''65f0c0ffee00000000000b0b''\<rparr> alice)) =
     [bob_conversation\<lparr>messages :=
        [\<lparr>role = ''user'', content = ''What is a safe dose of ibuprofen?'', timestamp = 1650000000\<rparr>,
         \<lparr>role = ''user'', content = ''And for a child?'', timestamp = 1700000000\<rparr>,
         \<lparr>role = ''assistant'', content = ''Please rest and drink water.'',
          timestamp = 1700000001\<rparr>]\<rparr>]"
proof -
  let ?w = "load_resources demo_ext demo_world"
  let ?r = "\<lparr>prompt = ''And for a child?'', conversation_id = Some ''65f0c0ffee00000000000b0b''\<rparr>"
  have loaded: "qa_chain ?w = Some demo_chain"
    by (rule demo_loaded_fields)
  have answered: "invoke demo_ext demo_chain (prompt ?r) =
      Inr \<lparr>query = ''And for a child?'', result = ''Please rest and drink water.'',
           source_documents =
             [\<lparr>page_content = ''Aspirin reduces fever.'', doc_source = ''data/drugs.pdf''\<rparr>]\<rparr>"
    by (simp add: demo_invoke)
  have given: "conversation_id ?r = Some ''65f0c0ffee00000000000b0b''"
    and nonempty: "''65f0c0ffee00000000000b0b'' \<noteq> []"
    by simp_all
  have parsed: "ObjectId demo_ext ''65f0c0ffee00000000000b0b'' = Inr (doc_id bob_conversation)"
    by (simp add: demo_ext_def bob_conversation_def)
  have here: "conversations_collection ?w = [] @ bob_conversation # []"
    by (simp add: demo_loaded_fields)
  have first: "\<forall>d \<in> set []. doc_id d \<noteq> doc_id bob_conversation"
    by simp
  have other: "username bob_conversation \<noteq> user_name alice"
    by (simp add: bob_conversation_def alice_def)
  have vals: "utcnow_at demo_ext 0 = 1700000000" "utcnow_at demo_ext (Suc 0) = 1700000001"
    "messages bob_conversation =
       [\<lparr>role = ''user'', content = ''What is a safe dose of ibuprofen?'', timestamp = 1650000000\<rparr>]"
    by (simp_all add: demo_ext_def bob_conversation_def)
  show ?thesis
    using loaded parsed here other
      chat_with_id_appends_two_messages
        [OF loaded answered given nonempty parsed here first refl, of alice]
    by (simp add: demo_loaded_fields vals)
qed

end
